theory Spec2Isabelle
  imports Complex_Main "HOL-Library.Product_Lexorder" "HOL-Library.Multiset"
begin

section \<open>Python values used by replay.py\<close>

text \<open>
  A \<^typ>\<open>char\<close> stands for a code point below 256, a line for a \<^typ>\<open>string\<close>. Exceptions are
  values of \<open>py_error\<close>; a computation that may raise returns \<open>py_error + 'a\<close>, with
  \<open>Inl\<close> the exception. What the script asks of a library (Python's Unicode tables,
  \<open>strptime\<close>, \<open>float\<close>, \<open>hash\<close>, the sort of pandas, the mean of a column) is a
  parameter of the function that asks for it.
\<close>

datatype py_error = IndexError | ValueError | KeyError | TypeError | AttributeError

subsection \<open>The methods of \<open>str\<close> the script calls\<close>

definition isspace :: "char \<Rightarrow> bool" where
  \<comment> \<open>\<open>str.isspace\<close> below code point 256: TAB, LF, VT, FF, CR, FS, GS, RS, US, the
      space, NEL (133) and the no-break space (160).\<close>
  "isspace c =
     (let n = (of_char c :: nat) in (9 \<le> n \<and> n \<le> 13) \<or> (28 \<le> n \<and> n \<le> 32) \<or> n = 133 \<or> n = 160)"

definition strip :: "string \<Rightarrow> string" where
  \<comment> \<open>\<open>s.strip()\<close>\<close>
  "strip s = rev (dropWhile isspace (rev (dropWhile isspace s)))"

definition startswith :: "string \<Rightarrow> string \<Rightarrow> bool" where
  \<comment> \<open>\<open>s.startswith(p)\<close>\<close>
  "startswith s p = (take (length p) s = p)"

fun index :: "string \<Rightarrow> char \<Rightarrow> py_error + nat" where
  \<comment> \<open>\<open>s.index(c)\<close>: the first position of \<open>c\<close>, ValueError when there is none.\<close>
  "index [] c = Inl ValueError"
| "index (x # xs) c =
     (if x = c then Inr 0
      else (case index xs c of Inl e \<Rightarrow> Inl e | Inr i \<Rightarrow> Inr (Suc i)))"

fun split_from :: "string \<Rightarrow> string \<Rightarrow> string \<Rightarrow> string list" where
  \<comment> \<open>The scan of \<open>s.split(sep)\<close>, left to right, matches not overlapping;
      \<open>acc\<close> is the piece being read, reversed.\<close>
  "split_from sep acc [] = [rev acc]"
| "split_from sep acc (c # cs) =
     (if startswith (c # cs) sep \<and> sep \<noteq> []
      then rev acc # split_from sep [] (drop (length sep - 1) cs)
      else split_from sep (c # acc) cs)"

definition split :: "string \<Rightarrow> string \<Rightarrow> string list" where
  \<comment> \<open>\<open>s.split(sep)\<close> for the non-empty separators of the script.\<close>
  "split s sep = split_from sep [] s"

definition upper :: "('c \<Rightarrow> 'c list) \<Rightarrow> 'c list \<Rightarrow> 'c list" where
  \<comment> \<open>\<open>s.upper()\<close>: each character gives way to its upper case, which \<open>upper_of\<close> tells
      and which can be more than one character (\<open>SS\<close> for the sharp s).\<close>
  "upper upper_of s = concat (map upper_of s)"

section \<open>The entity classifier\<close>

text \<open>
  Line 30: \<^verbatim>\<open>tag = "".join([c for c in user if c.isalpha()][:3]).upper()\<close>.
  \<open>isalpha\<close> is \<open>str.isalpha\<close> on one character and \<open>upper_of\<close> the upper case of one
  character, both from the Unicode tables of Python.
\<close>

definition tag_of :: "('c \<Rightarrow> bool) \<Rightarrow> ('c \<Rightarrow> 'c list) \<Rightarrow> 'c list \<Rightarrow> 'c list" where
  "tag_of isalpha upper_of user =
     upper upper_of (concat (map (\<lambda>c. [c]) (take 3 (filter isalpha user))))"

text \<open>
  The characters the specification names: read the identifier from the left, keep a
  character when it is alphabetic, stop after \<open>n\<close> of them.
\<close>

fun first_alphabetic :: "('c \<Rightarrow> bool) \<Rightarrow> nat \<Rightarrow> 'c list \<Rightarrow> 'c list" where
  "first_alphabetic isalpha 0 s = []"
| "first_alphabetic isalpha (Suc n) [] = []"
| "first_alphabetic isalpha (Suc n) (c # cs) =
     (if isalpha c then c # first_alphabetic isalpha n cs
      else first_alphabetic isalpha (Suc n) cs)"

text \<open>
  The two tables on ASCII, where they are the letters A-Z and a-z and the shift of a-z to
  A-Z; \<open>agree_on_ascii\<close> says of two tables that they are these below code point 128.
\<close>

definition ascii_isalpha :: "char \<Rightarrow> bool" where
  "ascii_isalpha c = (let n = (of_char c :: nat) in (65 \<le> n \<and> n \<le> 90) \<or> (97 \<le> n \<and> n \<le> 122))"

definition ascii_upper_of :: "char \<Rightarrow> string" where
  "ascii_upper_of c = (let n = (of_char c :: nat) in if 97 \<le> n \<and> n \<le> 122 then [char_of (n - 32)] else [c])"

definition agree_on_ascii :: "(char \<Rightarrow> bool) \<Rightarrow> (char \<Rightarrow> string) \<Rightarrow> bool" where
  "agree_on_ascii isalpha upper_of =
     (\<forall>c. (of_char c :: nat) < 128 \<longrightarrow> isalpha c = ascii_isalpha c \<and> upper_of c = ascii_upper_of c)"

text \<open>
  Two tables that know one letter beyond ASCII, the sharp s (code point 223), whose upper
  case is \<open>SS\<close>.
\<close>

definition sharp_s_isalpha :: "char \<Rightarrow> bool" where
  "sharp_s_isalpha c = (ascii_isalpha c \<or> c = CHR 0xDF)"

definition sharp_s_upper_of :: "char \<Rightarrow> string" where
  "sharp_s_upper_of c = (if c = CHR 0xDF then ''SS'' else ascii_upper_of c)"

section \<open>The log parser\<close>

text \<open>
  One row of \<open>data\<close> (lines 31 to 37). The type of timestamps \<open>'t\<close> is what
  \<open>datetime.strptime\<close> returns and \<open>'f\<close> what \<open>float\<close> returns; both library
  routines are parameters of the parser, \<open>None\<close> standing for their ValueError, as are
  the two tables the tag needs.
\<close>

record ('t, 'f) observation =
  time :: 't
  user :: string
  lon :: 'f
  lat :: 'f
  tag :: string

text \<open>
  Lines 22 to 37, the body of the \<open>elif\<close> branch, on a stripped line that starts with
  a bracket. \<open>Inr None\<close> is a line that adds no row.
\<close>

definition parse_entry ::
  "(char \<Rightarrow> bool) \<Rightarrow> (char \<Rightarrow> string) \<Rightarrow> (string \<Rightarrow> 't option) \<Rightarrow> (string \<Rightarrow> 'f option)
     \<Rightarrow> string \<Rightarrow> py_error + ('t, 'f) observation option" where
  "parse_entry isalpha upper_of strptime to_float line =
     (case index line CHR '']'' of
        Inl e \<Rightarrow> Inl e
      | Inr ts_end \<Rightarrow>
          (case strptime (drop 1 (take ts_end line)) of
             None \<Rightarrow> Inl ValueError
           | Some entry_time \<Rightarrow>
               (let rest = drop (ts_end + 2) line in
                if CHR '':'' \<in> set rest then
                  (case split rest '':'' of
                     [u, l] \<Rightarrow>
                       (let usr = strip u; loc = strip l in
                        case those (map to_float (take 2 (split loc '',''))) of
                          None \<Rightarrow> Inl ValueError
                        | Some coords \<Rightarrow>
                            (case coords of
                               c0 # c1 # _ \<Rightarrow>
                                 Inr (Some \<lparr>time = entry_time, user = usr, lon = c0,
                                            lat = c1, tag = tag_of isalpha upper_of usr\<rparr>)
                             | _ \<Rightarrow> Inl IndexError))
                   | _ \<Rightarrow> Inl ValueError)
                else Inr None)))"

text \<open>
  Lines 17 to 37, one turn of the loop: the state is \<open>current_time\<close> and \<open>data\<close>.
  A \<open>datetime\<close> is always true in a condition, so \<^verbatim>\<open>and current_time\<close> asks for a
  header seen before.
\<close>

type_synonym ('t, 'f) loader = "'t option \<times> ('t, 'f) observation list"

definition step ::
  "(char \<Rightarrow> bool) \<Rightarrow> (char \<Rightarrow> string) \<Rightarrow> (string \<Rightarrow> 't option) \<Rightarrow> (string \<Rightarrow> 'f option)
     \<Rightarrow> ('t, 'f) loader \<Rightarrow> string \<Rightarrow> py_error + ('t, 'f) loader" where
  "step isalpha upper_of strptime to_float st raw =
     (let line = strip raw; current_time = fst st; data = snd st in
      if startswith line ''--- Snapshot'' then
        (case split line '' at '' of
           _ # p # _ \<Rightarrow>
             (case split p '' UTC'' of
                ts_str # _ \<Rightarrow>
                  (case strptime ts_str of
                     None \<Rightarrow> Inl ValueError
                   | Some t \<Rightarrow> Inr (Some t, data))
              | [] \<Rightarrow> Inl IndexError)
         | _ \<Rightarrow> Inl IndexError)
      else if startswith line ''['' \<and> current_time \<noteq> None then
        (case parse_entry isalpha upper_of strptime to_float line of
           Inl e \<Rightarrow> Inl e
         | Inr None \<Rightarrow> Inr st
         | Inr (Some ob) \<Rightarrow> Inr (current_time, data @ [ob]))
      else Inr st)"

fun load_from ::
  "(char \<Rightarrow> bool) \<Rightarrow> (char \<Rightarrow> string) \<Rightarrow> (string \<Rightarrow> 't option) \<Rightarrow> (string \<Rightarrow> 'f option)
     \<Rightarrow> ('t, 'f) loader \<Rightarrow> string list \<Rightarrow> py_error + ('t, 'f) loader" where
  "load_from isalpha upper_of strptime to_float st [] = Inr st"
| "load_from isalpha upper_of strptime to_float st (raw # rest) =
     (case step isalpha upper_of strptime to_float st raw of
        Inl e \<Rightarrow> Inl e
      | Inr st' \<Rightarrow> load_from isalpha upper_of strptime to_float st' rest)"

definition load ::
  "(char \<Rightarrow> bool) \<Rightarrow> (char \<Rightarrow> string) \<Rightarrow> (string \<Rightarrow> 't option) \<Rightarrow> (string \<Rightarrow> 'f option)
     \<Rightarrow> string list \<Rightarrow> py_error + ('t, 'f) observation list" where
  \<comment> \<open>Lines 13 to 37 on the lines of a file that could be opened.\<close>
  "load isalpha upper_of strptime to_float lines =
     (case load_from isalpha upper_of strptime to_float (None, []) lines of
        Inl e \<Rightarrow> Inl e
      | Inr st \<Rightarrow> Inr (snd st))"

text \<open>The test of line 18 on a line as it is read.\<close>

definition is_header :: "string \<Rightarrow> bool" where
  "is_header raw = startswith (strip raw) ''--- Snapshot''"

text \<open>
  Two classes of lines, by the tests the loop makes on them. \<open>skipped\<close>: the line is
  no header and either is no bracketed line, or comes before any header, or is a bracketed
  line whose timestamp is accepted and whose remainder has no colon.
  \<open>malformed_coordinates\<close>: a bracketed line after a header, with an accepted timestamp
  and one colon in the remainder, where \<open>float\<close> rejects one of the first two
  coordinate fields or there is one field only.
\<close>

definition skipped :: "(string \<Rightarrow> 't option) \<Rightarrow> 't option \<Rightarrow> string \<Rightarrow> bool" where
  "skipped strptime current_time raw =
     (let line = strip raw in
      \<not> startswith line ''--- Snapshot'' \<and>
      (if startswith line ''['' \<and> current_time \<noteq> None then
         (case index line CHR '']'' of
            Inl e \<Rightarrow> False
          | Inr ts_end \<Rightarrow>
              strptime (drop 1 (take ts_end line)) \<noteq> None
              \<and> CHR '':'' \<notin> set (drop (ts_end + 2) line))
       else True))"

definition malformed_coordinates ::
  "(string \<Rightarrow> 't option) \<Rightarrow> (string \<Rightarrow> 'f option) \<Rightarrow> 't option \<Rightarrow> string \<Rightarrow> bool" where
  "malformed_coordinates strptime to_float current_time raw =
     (let line = strip raw in
      \<not> startswith line ''--- Snapshot'' \<and> startswith line ''['' \<and> current_time \<noteq> None \<and>
      (case index line CHR '']'' of
         Inl e \<Rightarrow> False
       | Inr ts_end \<Rightarrow>
           strptime (drop 1 (take ts_end line)) \<noteq> None
           \<and> CHR '':'' \<in> set (drop (ts_end + 2) line)
           \<and> (case split (drop (ts_end + 2) line) '':'' of
                 [u, l] \<Rightarrow>
                   (let fields = split (strip l) '','' in
                    those (map to_float (take 2 fields)) = None \<or> length fields < 2)
               | _ \<Rightarrow> False)))"

subsection \<open>The two library parsers on the formats of the log\<close>

definition isdigit :: "char \<Rightarrow> bool" where
  "isdigit c = (let n = (of_char c :: nat) in 48 \<le> n \<and> n \<le> 57)"

definition nat_of_digits :: "string \<Rightarrow> nat option" where
  "nat_of_digits s =
     (if s \<noteq> [] \<and> list_all isdigit s
      then Some (foldl (\<lambda>a c. 10 * a + (of_char c - 48)) 0 s) else None)"

definition days_in_month :: "nat \<Rightarrow> nat \<Rightarrow> nat" where
  "days_in_month y m =
     (if m = 2 then (if y mod 4 = 0 \<and> (y mod 100 \<noteq> 0 \<or> y mod 400 = 0) then 29 else 28)
      else if m = 4 \<or> m = 6 \<or> m = 9 \<or> m = 11 then 30 else 31)"

type_synonym datetime = "nat \<times> nat \<times> nat \<times> nat \<times> nat \<times> nat"

text \<open>
  \<open>datetime.strptime(s, "%Y-%m-%d %H:%M:%S")\<close> is a routine of Python's standard
  library. This is the routine on strings of the fixed width \<open>YYYY-MM-DD HH:MM:SS\<close>
  (Python accepts some other spellings too, which are \<open>None\<close> here),
  the result a naive datetime (year, month, day, hour, minute, second), ordered as
  Python orders them. It serves as an instance of the parameter \<open>strptime\<close>.
\<close>

definition strptime_fixed :: "string \<Rightarrow> datetime option" where
  "strptime_fixed s =
     (if length s = 19 \<and> s ! 4 = CHR ''-'' \<and> s ! 7 = CHR ''-'' \<and> s ! 10 = CHR '' ''
         \<and> s ! 13 = CHR '':'' \<and> s ! 16 = CHR '':'' then
        (case (nat_of_digits (take 4 s), nat_of_digits (take 2 (drop 5 s)),
               nat_of_digits (take 2 (drop 8 s)), nat_of_digits (take 2 (drop 11 s)),
               nat_of_digits (take 2 (drop 14 s)), nat_of_digits (take 2 (drop 17 s))) of
           (Some y, Some m, Some d, Some hh, Some mm, Some ss) \<Rightarrow>
             (if 1 \<le> y \<and> 1 \<le> m \<and> m \<le> 12 \<and> 1 \<le> d \<and> d \<le> days_in_month y m
                 \<and> hh < 24 \<and> mm < 60 \<and> ss < 60
              then Some (y, m, d, hh, mm, ss) else None)
         | _ \<Rightarrow> None)
      else None)"

text \<open>
  \<open>float(x)\<close> is a builtin of Python. This
  is the builtin on a plain decimal literal (optional sign, digits, at most one point)
  between optional blanks (Python accepts exponents, \<open>inf\<close> and \<open>nan\<close> too, which are
  \<open>None\<close> here). The value is the decimal itself, a rational: the rounding to a
  binary double is left out. It serves as an instance of the parameter \<open>to_float\<close>.
\<close>

definition float_decimal :: "string \<Rightarrow> rat option" where
  "float_decimal x =
     (let s = strip x;
          neg = startswith s ''-'';
          body = (if neg \<or> startswith s ''+'' then drop 1 s else s);
          ip = takeWhile isdigit body;
          r = dropWhile isdigit body;
          fp = drop 1 r
      in if (r = [] \<and> ip \<noteq> []) \<or>
            (startswith r ''.'' \<and> list_all isdigit fp \<and> (ip \<noteq> [] \<or> fp \<noteq> []))
         then (case nat_of_digits (CHR ''0'' # ip @ fp) of
                 None \<Rightarrow> None
               | Some n \<Rightarrow>
                   Some ((if neg then - 1 else 1) * (of_nat n / 10 ^ length fp)))
         else None)"

section \<open>The module's globals\<close>

definition unique :: "'a list \<Rightarrow> 'a list" where
  \<comment> \<open>\<open>Series.unique()\<close>: the values in the order of their first appearance.\<close>
  "unique xs = rev (remdups (rev xs))"

text \<open>
  \<open>DataFrame.sort_values("time")\<close> is a routine of pandas, a parameter \<open>sort_values\<close>
  here. What pandas documents for it is \<open>sorts_by_time\<close>: the rows come back in ascending
  order of the column, each row as often as before. The script passes no kind, so the
  kind is \<open>quicksort\<close>; that rows of equal time keep their order, \<open>keeps_tied_rows\<close>,
  pandas documents for the kinds \<open>stable\<close> and \<open>mergesort\<close> only.
\<close>

definition sorts_by_time ::
  "(('t::linorder, 'f) observation list \<Rightarrow> ('t, 'f) observation list) \<Rightarrow> bool" where
  "sorts_by_time sort_values =
     (\<forall>rows. mset (sort_values rows) = mset rows \<and> sorted (map time (sort_values rows)))"


text \<open>
  Two sorts with the documented result: the stable one, and one that puts rows of equal
  time in descending order of longitude.
\<close>

definition stable_sort :: "('t::linorder, 'f) observation list \<Rightarrow> ('t, 'f) observation list" where
  "stable_sort rows = sort_key time rows"


definition hex_digit :: "nat \<Rightarrow> char" where
  "hex_digit d = ''0123456789abcdef'' ! d"

fun hex_digits :: "nat \<Rightarrow> string" where
  "hex_digits n = (if n < 16 then [hex_digit n] else hex_digits (n div 16) @ [hex_digit (n mod 16)])"

declare hex_digits.simps [simp del]

definition format_06x :: "int \<Rightarrow> string" where
  \<comment> \<open>The format \<open>:06x\<close>: lower-case hexadecimal, padded with zeros to six characters.\<close>
  "format_06x n =
     (let ds = hex_digits (nat \<bar>n\<bar>) in
      if n < 0 then CHR ''-'' # replicate (5 - length ds) CHR ''0'' @ ds
      else replicate (6 - length ds) CHR ''0'' @ ds)"

text \<open>
  Lines 47 to 52, the colour one tag gets. \<open>hash\<close> is Python's builtin on strings,
  salted anew in each process: a parameter.
\<close>

definition tag_color :: "(string \<Rightarrow> int) \<Rightarrow> string \<Rightarrow> string" where
  "tag_color hash tg =
     (if startswith tg ''BDR'' then ''red''
      else if startswith tg ''ETG'' then ''blue''
      else CHR ''#'' # format_06x (hash tg mod 0xFFFFFF))"

record ('t, 'f) globals =
  df :: "('t, 'f) observation list"
  unique_times :: "'t list"
  unique_tags :: "string list"
  tag_colors :: "string \<rightharpoonup> string"

text \<open>
  Lines 39 to 52. A frame built from no rows has no column \<open>time\<close>: sorting it by
  that column raises KeyError.
\<close>

definition startup ::
  "(('t, 'f) observation list \<Rightarrow> ('t, 'f) observation list) \<Rightarrow> (string \<Rightarrow> int)
     \<Rightarrow> ('t::linorder, 'f) observation list \<Rightarrow> py_error + ('t, 'f) globals" where
  "startup sort_values hash data =
     (if data = [] then Inl KeyError
      else
        (let frame = sort_values data;
             tags = unique (map tag frame)
         in Inr \<lparr>df = frame,
                 unique_times = sort (unique (map time frame)),
                 unique_tags = tags,
                 tag_colors = foldl (\<lambda>colors tg. colors(tg \<mapsto> tag_color hash tg)) Map.empty tags\<rparr>))"

section \<open>The snapshot reconstructor\<close>

fun groupby_user_tail :: "('t, 'f) observation list \<Rightarrow> ('t, 'f) observation list" where
  \<comment> \<open>\<open>.groupby("user").tail(1)\<close>: the last row of each user, the rows in the frame's order.\<close>
  "groupby_user_tail [] = []"
| "groupby_user_tail (r # rs) =
     (if user r \<in> set (map user rs) then groupby_user_tail rs else r # groupby_user_tail rs)"

definition current_df ::
  "(('t, 'f) observation list \<Rightarrow> ('t, 'f) observation list) \<Rightarrow> ('t::linorder, 'f) observation list
     \<Rightarrow> 't \<Rightarrow> ('t, 'f) observation list" where
  \<comment> \<open>Lines 104 to 107 on the rows of the frame \<open>df\<close>.\<close>
  "current_df sort_values frame current_time =
     groupby_user_tail (sort_values (filter (\<lambda>r. time r \<le> current_time) frame))"

record 'f trace =
  trace_lon :: "'f list"
  trace_lat :: "'f list"
  marker_color :: string
  trace_text :: "string list"
  trace_name :: string

record ('f, 'z) figure =
  traces :: "'f trace list"
  mapbox_center :: "'f \<times> 'f"
  mapbox_zoom :: 'z

fun add_traces ::
  "(string \<rightharpoonup> string) \<Rightarrow> ('t, 'f) observation list \<Rightarrow> string list \<Rightarrow> py_error + 'f trace list" where
  \<comment> \<open>Lines 110 to 120: one trace for each tag; a tag without a colour is a KeyError.\<close>
  "add_traces colors rows [] = Inr []"
| "add_traces colors rows (tg # tgs) =
     (let tag_df = filter (\<lambda>r. tag r = tg) rows in
      case colors tg of
        None \<Rightarrow> Inl KeyError
      | Some c \<Rightarrow>
          (case add_traces colors rows tgs of
             Inl e \<Rightarrow> Inl e
           | Inr ts \<Rightarrow>
               Inr (\<lparr>trace_lon = map lon tag_df, trace_lat = map lat tag_df,
                      marker_color = c, trace_text = map user tag_df, trace_name = tg\<rparr> # ts)))"

definition figure_of ::
  "('f list \<Rightarrow> 'f) \<Rightarrow> 'f \<times> 'f \<Rightarrow> (py_error + (string \<rightharpoonup> string)) \<Rightarrow> ('t, 'f) observation list
     \<Rightarrow> ('f \<times> 'f) option \<Rightarrow> 'z \<Rightarrow> py_error + ('f, 'z) figure" where
  \<comment> \<open>Lines 109 to 139 on the rows of \<open>current_df\<close>. \<open>tag_colors\<close> is read at the first
      trace; the mean of a column of floats \<open>mean\<close> and the coordinates of line 128
      \<open>fallback\<close> (latitude, longitude) are parameters; \<open>center\<close> is a pair (latitude,
      longitude) or \<open>None\<close>.\<close>
  "figure_of mean fallback colors rows center zoom =
     (case (if rows = [] then Inr []
            else (case colors of
                    Inl e \<Rightarrow> Inl e
                  | Inr m \<Rightarrow> add_traces m rows (unique (map tag rows)))) of
        Inl e \<Rightarrow> Inl e
      | Inr ts \<Rightarrow>
          (let c = (case center of
                      None \<Rightarrow>
                        if rows \<noteq> [] then (mean (map lat rows), mean (map lon rows))
                        else fallback
                    | Some c \<Rightarrow> c)
           in Inr \<lparr>traces = ts, mapbox_center = c, mapbox_zoom = zoom\<rparr>))"

subsection \<open>Objects and the names bound to them\<close>

text \<open>
  A frame, a list and a dictionary of Python are objects: a method can change the object
  it is called on, and every name bound to the object then sees the change. The heap is
  the list of the objects, an address the position in it; a new object goes to the end.
  The module's global names are bound to addresses. \<open>create_figure\<close> has no \<open>global\<close>
  statement, so it cannot bind them anew: it takes the bindings and returns the heap.
\<close>

datatype ('t, 'f) obj =
  Frame "('t, 'f) observation list" | TimeList "'t list" | ColorDict "string \<rightharpoonup> string"

type_synonym ('t, 'f) heap = "('t, 'f) obj list"

record names =
  df_at :: nat
  unique_times_at :: nat
  tag_colors_at :: nat

definition frame_at :: "('t, 'f) heap \<Rightarrow> nat \<Rightarrow> py_error + ('t, 'f) observation list" where
  "frame_at h a =
     (if a < length h then (case h ! a of Frame rows \<Rightarrow> Inr rows | _ \<Rightarrow> Inl TypeError)
      else Inl TypeError)"

definition colors_at :: "('t, 'f) heap \<Rightarrow> nat \<Rightarrow> py_error + (string \<rightharpoonup> string)" where
  "colors_at h a =
     (if a < length h then (case h ! a of ColorDict m \<Rightarrow> Inr m | _ \<Rightarrow> Inl TypeError)
      else Inl TypeError)"

definition getitem_time_le ::
  "nat \<Rightarrow> 't::linorder \<Rightarrow> ('t, 'f) heap \<Rightarrow> py_error + nat \<times> ('t, 'f) heap" where
  \<comment> \<open>\<open>frame[frame['time'] <= t]\<close>: a new frame of the rows that pass.\<close>
  "getitem_time_le a t h =
     (case frame_at h a of
        Inl e \<Rightarrow> Inl e
      | Inr rows \<Rightarrow> Inr (length h, h @ [Frame (filter (\<lambda>r. time r \<le> t) rows)]))"

definition sort_values_frame ::
  "(('t, 'f) observation list \<Rightarrow> ('t, 'f) observation list) \<Rightarrow> bool \<Rightarrow> nat \<Rightarrow> ('t, 'f) heap
     \<Rightarrow> py_error + nat option \<times> ('t, 'f) heap" where
  \<comment> \<open>\<open>frame.sort_values("time", inplace=...)\<close>: with \<open>inplace\<close> the frame itself gets
      the sorted rows and the call returns \<open>None\<close>, without it a new frame does.\<close>
  "sort_values_frame sort_values inplace a h =
     (case frame_at h a of
        Inl e \<Rightarrow> Inl e
      | Inr rows \<Rightarrow>
          if inplace then Inr (None, h[a := Frame (sort_values rows)])
          else Inr (Some (length h), h @ [Frame (sort_values rows)]))"

definition groupby_user_tail_frame ::
  "nat \<Rightarrow> ('t, 'f) heap \<Rightarrow> py_error + nat \<times> ('t, 'f) heap" where
  \<comment> \<open>\<open>frame.groupby("user").tail(1)\<close>: a new frame.\<close>
  "groupby_user_tail_frame a h =
     (case frame_at h a of
        Inl e \<Rightarrow> Inl e
      | Inr rows \<Rightarrow> Inr (length h, h @ [Frame (groupby_user_tail rows)]))"

text \<open>
  Lines 102 to 139: the figure or the exception, and the heap the call leaves. Line 107
  passes no \<open>inplace\<close>, which is \<open>False\<close>.
\<close>

definition create_figure ::
  "(('t, 'f) observation list \<Rightarrow> ('t, 'f) observation list) \<Rightarrow> ('f list \<Rightarrow> 'f) \<Rightarrow> 'f \<times> 'f
     \<Rightarrow> 't::linorder \<Rightarrow> ('f \<times> 'f) option \<Rightarrow> 'z \<Rightarrow> names \<Rightarrow> ('t, 'f) heap
     \<Rightarrow> (py_error + ('f, 'z) figure) \<times> ('t, 'f) heap" where
  "create_figure sort_values mean fallback current_time center zoom nm h =
     (case getitem_time_le (df_at nm) current_time h of
        Inl e \<Rightarrow> (Inl e, h)
      | Inr (a1, h1) \<Rightarrow>
          (case sort_values_frame sort_values False a1 h1 of
             Inl e \<Rightarrow> (Inl e, h1)
           | Inr (None, h2) \<Rightarrow> (Inl AttributeError, h2)
           | Inr (Some a2, h2) \<Rightarrow>
               (case groupby_user_tail_frame a2 h2 of
                  Inl e \<Rightarrow> (Inl e, h2)
                | Inr (a3, h3) \<Rightarrow>
                    (case frame_at h3 a3 of
                       Inl e \<Rightarrow> (Inl e, h3)
                     | Inr rows \<Rightarrow>
                         (figure_of mean fallback (colors_at h3 (tag_colors_at nm)) rows
                            center zoom, h3)))))"

text \<open>The heap and the bindings when the startup has built the globals \<open>g\<close>.\<close>

definition heap_of :: "('t, 'f) globals \<Rightarrow> ('t, 'f) heap" where
  "heap_of g = [Frame (df g), TimeList (unique_times g), ColorDict (tag_colors g)]"

definition module_names :: names where
  "module_names = \<lparr>df_at = 0, unique_times_at = 1, tag_colors_at = 2\<rparr>"

section \<open>The callbacks\<close>

text \<open>
  The values Dash hands to a callback are JSON: a number, or an object with named
  members. Subscripting a number raises TypeError, a missing member KeyError.
\<close>

datatype 'v json = Num 'v | Obj "string \<rightharpoonup> 'v json"

fun subscript :: "'v json \<Rightarrow> string \<Rightarrow> py_error + 'v json" where
  "subscript (Num v) k = Inl TypeError"
| "subscript (Obj m) k = (case m k of None \<Rightarrow> Inl KeyError | Some x \<Rightarrow> Inr x)"

record 'v map_state =
  center :: "('v json \<times> 'v json) option"
  zoom :: "'v json"

definition update_map_state ::
  "(string \<rightharpoonup> 'v json) option \<Rightarrow> 'v map_state \<Rightarrow> py_error + 'v map_state" where
  \<comment> \<open>Lines 165 to 174; \<open>relayout\<close> is \<open>None\<close> or a dictionary.\<close>
  "update_map_state relayout current_state =
     (case relayout of
        None \<Rightarrow> Inr current_state
      | Some rl \<Rightarrow>
          (let new_center =
                 (case rl ''mapbox.center'' of
                    None \<Rightarrow> Inr (center current_state)
                  | Some c \<Rightarrow>
                      (case subscript c ''lat'' of
                         Inl e \<Rightarrow> Inl e
                       | Inr la \<Rightarrow>
                           (case subscript c ''lon'' of
                              Inl e \<Rightarrow> Inl e
                            | Inr lo \<Rightarrow> Inr (Some (la, lo)))));
               new_zoom =
                 (case rl ''mapbox.zoom'' of
                    None \<Rightarrow> zoom current_state
                  | Some z \<Rightarrow> z)
           in case new_center of
                Inl e \<Rightarrow> Inl e
              | Inr c \<Rightarrow> Inr \<lparr>center = c, zoom = new_zoom\<rparr>))"

definition advance_slider :: "('t, 'f) globals \<Rightarrow> int \<Rightarrow> int \<Rightarrow> int" where
  \<comment> \<open>Lines 203 to 206; \<open>n\<close> is the count of intervals, which the callback does not read.\<close>
  "advance_slider g n current_value =
     (if current_value < int (length (unique_times g)) - 1 then current_value + 1
      else current_value)"

fun ticks :: "('t, 'f) globals \<Rightarrow> int list \<Rightarrow> int \<Rightarrow> int" where
  \<comment> \<open>The slider after one call of \<open>advance_slider\<close> for each interval count of the list.\<close>
  "ticks g [] current_value = current_value"
| "ticks g (n # ns) current_value = ticks g ns (advance_slider g n current_value)"

section \<open>A small frame for the examples\<close>

text \<open>
  Four rows in input order: two rows of \<open>a\<close> at time 5, one of \<open>b\<close> at time 3 between
  them, and a later row of \<open>a\<close>.
\<close>

definition example_data :: "(nat, int) observation list" where
  "example_data =
     [\<lparr>time = 5, user = ''a'', lon = 1, lat = 1, tag = ''A''\<rparr>,
      \<lparr>time = 3, user = ''b'', lon = 7, lat = 7, tag = ''B''\<rparr>,
      \<lparr>time = 5, user = ''a'', lon = 2, lat = 2, tag = ''A''\<rparr>,
      \<lparr>time = 9, user = ''a'', lon = 3, lat = 3, tag = ''A''\<rparr>]"


text \<open>A stand-in for Python's hash, and the globals the startup builds with it.\<close>

definition example_hash :: "string \<Rightarrow> int" where
  "example_hash s = int (length s) + 4660"

definition example_globals :: "(nat, int) globals" where
  "example_globals =
     \<lparr>df = stable_sort example_data, unique_times = [3, 5, 9], unique_tags = [''B'', ''A''],
      tag_colors = [''B'' \<mapsto> ''#001235'', ''A'' \<mapsto> ''#001235'']\<rparr>"

section \<open>Properties of the classifier\<close>

lemma first_alphabetic_filter:
  "first_alphabetic isalpha n s = take n (filter isalpha s)"
  by (induction isalpha n s rule: first_alphabetic.induct) simp_all

lemma join_chars: "concat (map (\<lambda>c. [c]) xs) = xs"
  by (induction xs) simp_all

lemma tag_of_on_ascii:
  assumes "agree_on_ascii isalpha upper_of" and "\<forall>c \<in> set s. (of_char c :: nat) < 128"
  shows "tag_of isalpha upper_of s = tag_of ascii_isalpha ascii_upper_of s"
proof -
  from assms have f: "filter isalpha s = filter ascii_isalpha s"
    by (intro filter_cong) (auto simp: agree_on_ascii_def)
  have "\<forall>c \<in> set (take 3 (filter ascii_isalpha s)). (of_char c :: nat) < 128"
    using assms(2) by (auto dest: in_set_takeD)
  with assms(1) have m: "map upper_of (take 3 (filter ascii_isalpha s))
      = map ascii_upper_of (take 3 (filter ascii_isalpha s))"
    by (intro map_cong) (auto simp: agree_on_ascii_def)
  show ?thesis by (simp only: tag_of_def upper_def join_chars f m)
qed

lemma tag_alpha1: "tag_of ascii_isalpha ascii_upper_of ''Alpha1'' = ''ALP''"
  by code_simp

text \<open>
  C5. The tag of an identifier is the upper case of its first three alphabetic characters
  (of all of them when it has fewer), in their order, whatever stands between them: a
  function of the identifier and of Python's two tables alone. With tables that are the
  ASCII ones below code point 128, \<open>Alpha1\<close> has the tag \<open>ALP\<close>.
\<close>

theorem tag_first_three_alphabetic:
  "tag_of isalpha upper_of ident = upper upper_of (first_alphabetic isalpha 3 ident)
   \<and> length (first_alphabetic isalpha 3 ident) = min 3 (length (filter isalpha ident))
   \<and> (agree_on_ascii is_alpha upper_case \<longrightarrow> tag_of is_alpha upper_case ''Alpha1'' = ''ALP'')"
proof -
  have a: "tag_of isalpha upper_of ident = upper upper_of (first_alphabetic isalpha 3 ident)"
    by (simp add: tag_of_def join_chars first_alphabetic_filter)
  have b: "length (first_alphabetic isalpha 3 ident) = min 3 (length (filter isalpha ident))"
    by (simp add: first_alphabetic_filter min.commute)
  have c: "agree_on_ascii is_alpha upper_case \<longrightarrow> tag_of is_alpha upper_case ''Alpha1'' = ''ALP''"
  proof
    assume h: "agree_on_ascii is_alpha upper_case"
    have "\<forall>c \<in> set ''Alpha1''. (of_char c :: nat) < 128" by simp
    with h have "tag_of is_alpha upper_case ''Alpha1'' = tag_of ascii_isalpha ascii_upper_of ''Alpha1''"
      by (rule tag_of_on_ascii)
    then show "tag_of is_alpha upper_case ''Alpha1'' = ''ALP''" by (simp add: tag_alpha1)
  qed
  from a b c show ?thesis by blast
qed

lemma sharp_s_agree: "agree_on_ascii sharp_s_isalpha sharp_s_upper_of"
proof -
  have "\<And>c. (of_char c :: nat) < 128 \<Longrightarrow> c \<noteq> CHR 0xDF" by auto
  then show ?thesis
    by (simp add: agree_on_ascii_def sharp_s_isalpha_def sharp_s_upper_of_def)
qed

theorem tag_first_three_witness:
  "agree_on_ascii sharp_s_isalpha sharp_s_upper_of
   \<and> tag_of sharp_s_isalpha sharp_s_upper_of ''Alpha1'' = ''ALP''
   \<and> tag_of sharp_s_isalpha sharp_s_upper_of [CHR 0xDF, CHR ''a'', CHR ''b'', CHR ''c''] = ''SSAB''
   \<and> first_alphabetic sharp_s_isalpha 3 [CHR 0xDF, CHR ''a'', CHR ''b'', CHR ''c'']
       = [CHR 0xDF, CHR ''a'', CHR ''b'']"
proof -
  have e: "first_alphabetic sharp_s_isalpha 3 [CHR 0xDF, CHR ''a'', CHR ''b'', CHR ''c'']
       = [CHR 0xDF, CHR ''a'', CHR ''b'']"
    by (simp add: numeral_3_eq_3 sharp_s_isalpha_def ascii_isalpha_def)
  have u: "upper sharp_s_upper_of [CHR 0xDF, CHR ''a'', CHR ''b''] = ''SSAB''"
    by code_simp
  from tag_first_three_alphabetic
        [of sharp_s_isalpha sharp_s_upper_of "[CHR 0xDF, CHR ''a'', CHR ''b'', CHR ''c'']"
            sharp_s_isalpha sharp_s_upper_of]
    sharp_s_agree e u
  show ?thesis by simp
qed

section \<open>Properties of the playback cursor\<close>

lemma ticks_clamped:
  "0 \<le> c \<Longrightarrow> c \<le> int (length (unique_times g)) - 1 \<Longrightarrow>
   ticks g ns c = min (c + int (length ns)) (int (length (unique_times g)) - 1)"
  by (induction ns arbitrary: c) (auto simp: advance_slider_def)

text \<open>
  C7. On a timeline of \<open>N\<close> times and a cursor between \<open>0\<close> and \<open>N - 1\<close>, one tick
  adds one to a cursor below \<open>N - 1\<close> and leaves the cursor \<open>N - 1\<close> where it is, so the
  cursor stays in the range; \<open>N\<close> ticks or more from \<open>0\<close> end at \<open>N - 1\<close>.
\<close>

theorem cursor_clamped_at_final_index:
  assumes "0 \<le> c" and "c \<le> int (length (unique_times g)) - 1"
  shows "advance_slider g n c = (if c < int (length (unique_times g)) - 1 then c + 1 else c)
     \<and> 0 \<le> advance_slider g n c \<and> advance_slider g n c \<le> int (length (unique_times g)) - 1
     \<and> (length (unique_times g) \<le> length ns \<longrightarrow> ticks g ns 0 = int (length (unique_times g)) - 1)"
proof -
  have a: "advance_slider g n c = (if c < int (length (unique_times g)) - 1 then c + 1 else c)"
    by (simp add: advance_slider_def)
  have b: "0 \<le> advance_slider g n c" "advance_slider g n c \<le> int (length (unique_times g)) - 1"
    using assms by (simp_all add: advance_slider_def)
  have z: "(0::int) \<le> int (length (unique_times g)) - 1" using assms by linarith
  have d: "length (unique_times g) \<le> length ns \<longrightarrow> ticks g ns 0 = int (length (unique_times g)) - 1"
  proof
    assume "length (unique_times g) \<le> length ns"
    then show "ticks g ns 0 = int (length (unique_times g)) - 1"
      using ticks_clamped [OF order_refl z, of ns] by linarith
  qed
  from a b d show ?thesis by blast
qed

theorem cursor_clamped_witness:
  "ticks \<lparr>df = ([] :: (nat, int) observation list), unique_times = [10, 20, 30],
          unique_tags = [], tag_colors = Map.empty\<rparr> [1, 2, 3, 4] 0 = 2
   \<and> advance_slider \<lparr>df = ([] :: (nat, int) observation list), unique_times = [10, 20, 30],
          unique_tags = [], tag_colors = Map.empty\<rparr> 1 1 = 2
   \<and> advance_slider \<lparr>df = ([] :: (nat, int) observation list), unique_times = [10, 20, 30],
          unique_tags = [], tag_colors = Map.empty\<rparr> 2 2 = 2"
  using cursor_clamped_at_final_index
    [of 1 "\<lparr>df = ([] :: (nat, int) observation list), unique_times = [10, 20, 30],
          unique_tags = [], tag_colors = Map.empty\<rparr>" 1 "[1, 2, 3, 4]"]
    cursor_clamped_at_final_index
    [of 2 "\<lparr>df = ([] :: (nat, int) observation list), unique_times = [10, 20, 30],
          unique_tags = [], tag_colors = Map.empty\<rparr>" 2 "[1, 2, 3, 4]"]
  by simp

section \<open>Properties of the viewport state\<close>

text \<open>
  C8. An interaction changes only what it carries. No event at all leaves the state as
  it is; an event without a centre keeps the centre; an event with a centre (an object
  with \<open>lat\<close> and \<open>lon\<close>) replaces it by that pair; the zoom is replaced when the event
  has one and kept when it has none; an event with neither leaves the state as it is.
\<close>

theorem viewport_update_frame:
  "update_map_state None s = Inr s
   \<and> (rl ''mapbox.center'' = None \<longrightarrow>
        update_map_state (Some rl) s =
          Inr \<lparr>center = center s,
               zoom = (case rl ''mapbox.zoom'' of None \<Rightarrow> zoom s | Some z \<Rightarrow> z)\<rparr>)
   \<and> (rl ''mapbox.center'' = Some (Obj m) \<and> m ''lat'' = Some la \<and> m ''lon'' = Some lo \<longrightarrow>
        update_map_state (Some rl) s =
          Inr \<lparr>center = Some (la, lo),
               zoom = (case rl ''mapbox.zoom'' of None \<Rightarrow> zoom s | Some z \<Rightarrow> z)\<rparr>)
   \<and> (rl ''mapbox.center'' = None \<and> rl ''mapbox.zoom'' = None \<longrightarrow>
        update_map_state (Some rl) s = Inr s)"
proof -
  have a: "update_map_state None s = Inr s"
    by (simp add: update_map_state_def)
  have b: "rl ''mapbox.center'' = None \<longrightarrow>
        update_map_state (Some rl) s =
          Inr \<lparr>center = center s,
               zoom = (case rl ''mapbox.zoom'' of None \<Rightarrow> zoom s | Some z \<Rightarrow> z)\<rparr>"
    by (simp add: update_map_state_def Let_def)
  have c: "rl ''mapbox.center'' = Some (Obj m) \<and> m ''lat'' = Some la \<and> m ''lon'' = Some lo \<longrightarrow>
        update_map_state (Some rl) s =
          Inr \<lparr>center = Some (la, lo),
               zoom = (case rl ''mapbox.zoom'' of None \<Rightarrow> zoom s | Some z \<Rightarrow> z)\<rparr>"
    by (simp add: update_map_state_def Let_def)
  have d: "rl ''mapbox.center'' = None \<and> rl ''mapbox.zoom'' = None \<longrightarrow>
        update_map_state (Some rl) s = Inr s"
    by (simp add: update_map_state_def Let_def)
  from a b c d show ?thesis by blast
qed

theorem viewport_update_witness:
  "update_map_state
      (Some [''mapbox.center'' \<mapsto> Obj [''lat'' \<mapsto> Num (1::int), ''lon'' \<mapsto> Num 2]])
      \<lparr>center = None, zoom = Num 12\<rparr>
    = Inr \<lparr>center = Some (Num 1, Num 2), zoom = Num 12\<rparr>
   \<and> update_map_state (Some [''mapbox.zoom'' \<mapsto> Num (9::int)])
        \<lparr>center = Some (Num 1, Num 2), zoom = Num 12\<rparr>
      = Inr \<lparr>center = Some (Num 1, Num 2), zoom = Num 9\<rparr>
   \<and> update_map_state (Some [''dragmode'' \<mapsto> Num (0::int)])
        \<lparr>center = Some (Num 1, Num 2), zoom = Num 12\<rparr>
      = Inr \<lparr>center = Some (Num 1, Num 2), zoom = Num 12\<rparr>
   \<and> update_map_state None \<lparr>center = Some (Num (1::int), Num 2), zoom = Num 12\<rparr>
      = Inr \<lparr>center = Some (Num 1, Num 2), zoom = Num 12\<rparr>"
  using
    viewport_update_frame
      [where rl = "[''mapbox.center'' \<mapsto> Obj [''lat'' \<mapsto> Num (1::int), ''lon'' \<mapsto> Num 2]]"
         and m = "[''lat'' \<mapsto> Num (1::int), ''lon'' \<mapsto> Num 2]"
         and la = "Num 1" and lo = "Num 2" and s = "\<lparr>center = None, zoom = Num 12\<rparr>"]
    viewport_update_frame
      [where rl = "[''mapbox.zoom'' \<mapsto> Num (9::int)]"
         and s = "\<lparr>center = Some (Num 1, Num 2), zoom = Num 12\<rparr>"]
    viewport_update_frame
      [where rl = "[''dragmode'' \<mapsto> Num (0::int)]"
         and s = "\<lparr>center = Some (Num 1, Num 2), zoom = Num 12\<rparr>"]
  by simp

section \<open>Properties of the colour assignment\<close>

lemma length_hex_digits: "0 < k \<Longrightarrow> n < 16 ^ k \<Longrightarrow> length (hex_digits n) \<le> k"
proof (induction n arbitrary: k rule: hex_digits.induct)
  case (1 n)
  show ?case
  proof (cases "n < 16")
    case True
    with "1.prems" show ?thesis by (subst hex_digits.simps) simp
  next
    case False
    then obtain j where k: "k = Suc j" and j: "0 < j"
      using "1.prems" by (cases k; cases "k - 1") auto
    have "n div 16 < 16 ^ j"
      using "1.prems"(2) k by (simp add: less_mult_imp_div_less mult.commute)
    with "1.IH"[OF False j] have "length (hex_digits (n div 16)) \<le> j" by simp
    with False k show ?thesis by (subst hex_digits.simps) simp
  qed
qed

lemma length_format_06x:
  assumes "0 \<le> n" "n < 16777216"
  shows "length (format_06x n) = 6"
proof -
  have "(16::nat) ^ 6 = 16777216" by simp
  moreover from assms have "nat \<bar>n\<bar> < 16777216" by linarith
  ultimately have "nat \<bar>n\<bar> < 16 ^ 6" by presburger
  then have "length (hex_digits (nat \<bar>n\<bar>)) \<le> 6"
    by (rule length_hex_digits [rotated]) simp
  with assms(1) show ?thesis
    unfolding format_06x_def Let_def by simp
qed

lemma set_unique: "set (unique xs) = set xs"
  by (simp add: unique_def)

lemma colors_foldl:
  "foldl (\<lambda>colors tg. colors(tg \<mapsto> f tg)) m tgs k =
     (if k \<in> set tgs then Some (f k) else m k)"
  by (induction tgs arbitrary: m) auto

lemma sorts_by_time_set: "sorts_by_time sort_values \<Longrightarrow> set (sort_values xs) = set xs"
  by (metis mset_eq_setD sorts_by_time_def)

lemma sorts_by_time_sorted: "sorts_by_time sort_values \<Longrightarrow> sorted (map time (sort_values xs))"
  by (simp add: sorts_by_time_def)

lemma stable_sort_sorts: "sorts_by_time stable_sort"
  by (simp add: sorts_by_time_def stable_sort_def)




lemma startup_tag_colors:
  assumes "sorts_by_time sort_values" and "startup sort_values hash data = Inr g"
  shows "tag_colors g k = (if k \<in> tag ` set data then Some (tag_color hash k) else None)"
proof -
  from assms(2) have "data \<noteq> []" by (auto simp: startup_def split: if_splits)
  with assms(2) have "tag_colors g =
     foldl (\<lambda>colors tg. colors(tg \<mapsto> tag_color hash tg)) Map.empty (unique (map tag (sort_values data)))"
    by (auto simp: startup_def Let_def)
  then show ?thesis
    by (simp add: colors_foldl set_unique sorts_by_time_set [OF assms(1)])
qed

text \<open>
  C9. An identifier without any alphabetic character has the empty tag. The empty tag
  starts with neither \<open>BDR\<close> nor \<open>ETG\<close>, so its colour is the one derived from the
  hash: \<open>#\<close> and six hexadecimal digits, a function of the hash of the tag alone. When a
  parsed row has that tag, the colour map built at startup holds this colour for it.
\<close>

theorem tag_without_letters:
  assumes "\<forall>c \<in> set ident. \<not> isalpha c"
  shows "tag_of isalpha upper_of ident = []
     \<and> tag_color hash (tag_of isalpha upper_of ident) = CHR ''#'' # format_06x (hash [] mod 0xFFFFFF)
     \<and> length (tag_color hash (tag_of isalpha upper_of ident)) = 7
     \<and> (sorts_by_time sort_values \<and> startup sort_values hash data = Inr g
          \<and> r \<in> set data \<and> tag r = tag_of isalpha upper_of ident
          \<longrightarrow> tag_colors g (tag_of isalpha upper_of ident)
                = Some (tag_color hash (tag_of isalpha upper_of ident)))"
proof -
  from assms have "filter isalpha ident = []" by (simp add: filter_empty_conv)
  then have t: "tag_of isalpha upper_of ident = []" by (simp add: tag_of_def upper_def)
  have c: "tag_color hash [] = CHR ''#'' # format_06x (hash [] mod 0xFFFFFF)"
    by (simp add: tag_color_def startswith_def)
  have "0 \<le> hash [] mod 0xFFFFFF" by simp
  moreover have "hash [] mod 0xFFFFFF < 0xFFFFFF" by simp
  then have "hash [] mod 0xFFFFFF < 16777216" by linarith
  ultimately have l: "length (format_06x (hash [] mod 0xFFFFFF)) = 6"
    by (rule length_format_06x)
  have d: "sorts_by_time sort_values \<and> startup sort_values hash data = Inr g
          \<and> r \<in> set data \<and> tag r = tag_of isalpha upper_of ident
          \<longrightarrow> tag_colors g (tag_of isalpha upper_of ident)
                = Some (tag_color hash (tag_of isalpha upper_of ident))"
  proof
    assume h: "sorts_by_time sort_values \<and> startup sort_values hash data = Inr g
          \<and> r \<in> set data \<and> tag r = tag_of isalpha upper_of ident"
    then have "tag_of isalpha upper_of ident \<in> tag ` set data" by force
    moreover from h have "sorts_by_time sort_values" "startup sort_values hash data = Inr g"
      by simp_all
    ultimately show "tag_colors g (tag_of isalpha upper_of ident)
                = Some (tag_color hash (tag_of isalpha upper_of ident))"
      using startup_tag_colors [of sort_values hash data g "tag_of isalpha upper_of ident"] by simp
  qed
  from t c l d show ?thesis by simp
qed

theorem tag_without_letters_witness:
  "tag_of ascii_isalpha ascii_upper_of ''1-2'' = []
   \<and> tag_color (\<lambda>s. int (length s) + 4660) (tag_of ascii_isalpha ascii_upper_of ''1-2'') = ''#001234''
   \<and> sorts_by_time (stable_sort :: (nat, int) observation list \<Rightarrow> (nat, int) observation list)
   \<and> tag_colors (projr (startup stable_sort (\<lambda>s. int (length s) + 4660)
        [\<lparr>time = 5::nat, user = ''1-2'', lon = 3::int, lat = 4,
          tag = tag_of ascii_isalpha ascii_upper_of ''1-2''\<rparr>])) [] = Some ''#001234''"
proof -
  let ?h = "\<lambda>s. int (length s) + 4660"
  let ?r = "\<lparr>time = 5::nat, user = ''1-2'', lon = 3::int, lat = 4,
             tag = tag_of ascii_isalpha ascii_upper_of ''1-2''\<rparr>"
  have a: "\<forall>c \<in> set ''1-2''. \<not> ascii_isalpha c" by (simp add: ascii_isalpha_def)
  have f: "format_06x 4660 = ''001234''"
    by (simp add: format_06x_def hex_digits.simps hex_digit_def numeral_2_eq_2)
  obtain g where g: "startup stable_sort ?h [?r] = Inr g" by (simp add: startup_def Let_def)
  from tag_without_letters [OF a, of ascii_upper_of ?h stable_sort "[?r]" g ?r] g f stable_sort_sorts
  show ?thesis by auto
qed

section \<open>Properties of the snapshot reconstructor\<close>

lemma groupby_user_tail_subset: "set (groupby_user_tail rs) \<subseteq> set rs"
  by (induction rs) auto

lemma groupby_user_tail_users: "user ` set (groupby_user_tail rs) = user ` set rs"
  by (induction rs) auto

lemma groupby_user_tail_distinct: "distinct (map user (groupby_user_tail rs))"
proof (induction rs)
  case Nil
  show ?case by simp
next
  case (Cons r rs)
  have "user r \<notin> user ` set rs \<Longrightarrow> user r \<notin> user ` set (groupby_user_tail rs)"
    by (simp add: groupby_user_tail_users)
  with Cons show ?case by auto
qed

lemma groupby_user_tail_last:
  "r \<in> set (groupby_user_tail rs) \<Longrightarrow> r = last (filter (\<lambda>x. user x = user r) rs)"
proof (induction rs)
  case Nil
  then show ?case by simp
next
  case (Cons a rs)
  show ?case
  proof (cases "r \<in> set (groupby_user_tail rs)")
    case True
    then have ih: "r = last (filter (\<lambda>x. user x = user r) rs)" by (rule Cons.IH)
    from True have "r \<in> set rs" using groupby_user_tail_subset by blast
    then have "filter (\<lambda>x. user x = user r) rs \<noteq> []"
      by (auto simp: filter_empty_conv)
    with ih show ?thesis by simp
  next
    case False
    with Cons.prems have ra: "r = a" and "user a \<notin> user ` set rs"
      by (auto split: if_splits)
    then have "\<forall>x \<in> set rs. user x \<noteq> user r"
      by (metis imageI)
    then have "filter (\<lambda>x. user x = user r) rs = []"
      by (simp add: filter_empty_conv)
    with ra show ?thesis by simp
  qed
qed

lemma sorted_filter_last_max:
  assumes "sorted (map f xs)" and "x \<in> set xs" and "P x"
  shows "f x \<le> f (last (filter P xs))"
proof -
  let ?ys = "filter P xs"
  from assms(1) have s: "sorted (map f ?ys)" by (rule sorted_filter)
  from assms(2,3) have x: "x \<in> set ?ys" by simp
  then have ne: "?ys \<noteq> []" by (metis empty_iff list.set(1))
  then have "?ys = butlast ?ys @ [last ?ys]" by simp
  with s have "sorted (map f (butlast ?ys @ [last ?ys]))" by simp
  then have "\<forall>y \<in> set (butlast ?ys). f y \<le> f (last ?ys)"
    by (simp add: sorted_append)
  moreover from x ne have "x \<in> set (butlast ?ys) \<or> x = last ?ys"
    by (metis append_butlast_last_id in_set_butlast_appendI insert_iff list.set(2) set_append Un_iff empty_iff empty_set)
  ultimately show ?thesis by auto
qed




lemma current_df_set:
  assumes "sorts_by_time sort_values"
  shows "set (current_df sort_values frame t) \<subseteq> {x \<in> set frame. time x \<le> t}"
  using groupby_user_tail_subset [of "sort_values (filter (\<lambda>r. time r \<le> t) frame)"]
  by (simp add: current_df_def sorts_by_time_set [OF assms])

lemma current_df_users:
  assumes "sorts_by_time sort_values"
  shows "user ` set (current_df sort_values frame t) = user ` {x \<in> set frame. time x \<le> t}"
  by (simp add: current_df_def groupby_user_tail_users sorts_by_time_set [OF assms])

lemma current_df_greatest:
  assumes s: "sorts_by_time sort_values"
    and r: "r \<in> set (current_df sort_values frame t)"
    and x: "x \<in> set frame" "user x = user r" "time x \<le> t"
  shows "time x \<le> time r"
proof -
  let ?S = "sort_values (filter (\<lambda>r. time r \<le> t) frame)"
  from r have "r = last (filter (\<lambda>y. user y = user r) ?S)"
    unfolding current_df_def by (rule groupby_user_tail_last)
  moreover from x have "x \<in> set ?S" by (simp add: sorts_by_time_set [OF s])
  then have "time x \<le> time (last (filter (\<lambda>y. user y = user r) ?S))"
    using x(2) by (intro sorted_filter_last_max sorts_by_time_sorted [OF s]) simp_all
  ultimately show ?thesis by simp
qed

lemma example_df:
  "stable_sort example_data =
     [\<lparr>time = 3, user = ''b'', lon = 7, lat = 7, tag = ''B''\<rparr>,
      \<lparr>time = 5, user = ''a'', lon = 1, lat = 1, tag = ''A''\<rparr>,
      \<lparr>time = 5, user = ''a'', lon = 2, lat = 2, tag = ''A''\<rparr>,
      \<lparr>time = 9, user = ''a'', lon = 3, lat = 3, tag = ''A''\<rparr>]"
  by (simp add: example_data_def stable_sort_def)

lemma example_current_df_5:
  "current_df stable_sort (stable_sort example_data) 5 =
     [\<lparr>time = 3, user = ''b'', lon = 7, lat = 7, tag = ''B''\<rparr>,
      \<lparr>time = 5, user = ''a'', lon = 2, lat = 2, tag = ''A''\<rparr>]"
  unfolding current_df_def example_df by (simp add: stable_sort_def)

lemma example_current_df_4:
  "current_df stable_sort (stable_sort example_data) 4 =
     [\<lparr>time = 3, user = ''b'', lon = 7, lat = 7, tag = ''B''\<rparr>]"
  unfolding current_df_def example_df by (simp add: stable_sort_def)

text \<open>
  C1. Whatever sort with the documented result pandas runs: at a cursor time \<open>t\<close> the
  reconstruction holds an entity exactly when the frame has a row of that entity with
  time at most \<open>t\<close>; it holds one row for each such entity; and that row is a row of the
  frame, of time at most \<open>t\<close>, whose time is the greatest among the entity's rows of
  time at most \<open>t\<close>: its coordinates are the ones shown.
\<close>

theorem latest_observation_per_entity:
  assumes "sorts_by_time sort_values"
  shows "(u \<in> user ` set (current_df sort_values frame t)
            \<longleftrightarrow> (\<exists>x \<in> set frame. user x = u \<and> time x \<le> t))
   \<and> distinct (map user (current_df sort_values frame t))
   \<and> (\<forall>r \<in> set (current_df sort_values frame t).
         r \<in> set frame \<and> time r \<le> t
         \<and> (\<forall>x \<in> set frame. user x = user r \<and> time x \<le> t \<longrightarrow> time x \<le> time r))"
proof -
  have a: "u \<in> user ` set (current_df sort_values frame t)
            \<longleftrightarrow> (\<exists>x \<in> set frame. user x = u \<and> time x \<le> t)"
    unfolding current_df_users [OF assms] by auto
  have b: "distinct (map user (current_df sort_values frame t))"
    unfolding current_df_def by (rule groupby_user_tail_distinct)
  have c: "\<forall>r \<in> set (current_df sort_values frame t).
         r \<in> set frame \<and> time r \<le> t
         \<and> (\<forall>x \<in> set frame. user x = user r \<and> time x \<le> t \<longrightarrow> time x \<le> time r)"
  proof
    fix r assume r: "r \<in> set (current_df sort_values frame t)"
    with current_df_set [OF assms, of frame t] have "r \<in> set frame \<and> time r \<le> t" by auto
    moreover have "\<forall>x \<in> set frame. user x = user r \<and> time x \<le> t \<longrightarrow> time x \<le> time r"
      using current_df_greatest [OF assms r] by blast
    ultimately show "r \<in> set frame \<and> time r \<le> t
         \<and> (\<forall>x \<in> set frame. user x = user r \<and> time x \<le> t \<longrightarrow> time x \<le> time r)" by blast
  qed
  from a b c show ?thesis by blast
qed

theorem latest_observation_witness:
  "sorts_by_time (stable_sort :: (nat, int) observation list \<Rightarrow> (nat, int) observation list)
   \<and> ''a'' \<in> user ` set (current_df stable_sort (stable_sort example_data) 5)
   \<and> ''b'' \<in> user ` set (current_df stable_sort (stable_sort example_data) 5)
   \<and> ''a'' \<notin> user ` set (current_df stable_sort (stable_sort example_data) 4)
   \<and> distinct (map user (current_df stable_sort (stable_sort example_data) 5))
   \<and> map time (current_df stable_sort (stable_sort example_data) 5) = [3, 5]"
  using latest_observation_per_entity [OF stable_sort_sorts, of "''a''" "stable_sort example_data" 5]
    latest_observation_per_entity [OF stable_sort_sorts, of "''a''" "stable_sort example_data" 4]
    stable_sort_sorts [where ?'a = nat and ?'b = int]
  by (simp add: example_current_df_5 example_current_df_4)

text \<open>
  C2. Over one frame, an entity present in the reconstruction at a cursor time is
  present at every later cursor time (and at the same one).
\<close>

theorem reconstruction_monotonic:
  assumes "sorts_by_time sort_values" and "t1 \<le> t2"
  shows "user ` set (current_df sort_values frame t1) \<subseteq> user ` set (current_df sort_values frame t2)"
  unfolding current_df_users [OF assms(1)] using assms(2) by auto

theorem reconstruction_monotonic_witness:
  "sorts_by_time (stable_sort :: (nat, int) observation list \<Rightarrow> (nat, int) observation list)
   \<and> (4::nat) \<le> 5
   \<and> user ` set (current_df stable_sort (stable_sort example_data) 4) = {''b''}
   \<and> user ` set (current_df stable_sort (stable_sort example_data) 5) = {''a'', ''b''}
   \<and> user ` set (current_df stable_sort (stable_sort example_data) 4)
       \<subseteq> user ` set (current_df stable_sort (stable_sort example_data) 5)"
  using reconstruction_monotonic [OF stable_sort_sorts, of 4 5 "stable_sort example_data"]
    stable_sort_sorts [where ?'a = nat and ?'b = int]
  by (simp add: example_current_df_5 example_current_df_4 insert_commute)






section \<open>Properties of the log parser\<close>

lemma step_before_header:
  "\<not> is_header raw \<Longrightarrow> step isalpha upper_of strptime to_float (None, d) raw = Inr (None, d)"
  by (simp add: step_def is_header_def Let_def)

lemma load_from_before_header:
  "\<forall>raw \<in> set pre. \<not> is_header raw \<Longrightarrow>
   load_from isalpha upper_of strptime to_float (None, d) (pre @ rest) = load_from isalpha upper_of strptime to_float (None, d) rest"
  by (induction pre) (simp_all add: step_before_header)

lemma step_header:
  assumes "step isalpha upper_of strptime to_float (ct, d) raw = Inr (ct', d')" and "is_header raw"
  shows "ct' \<noteq> None \<and> d' = d"
  using assms
  by (auto simp: step_def is_header_def Let_def split: list.splits option.splits) metis+

lemma step_entry:
  assumes "step isalpha upper_of strptime to_float (ct, d) raw = Inr (ct', d')" and "\<not> is_header raw"
  shows "ct' = ct \<and> (d' = d \<or>
           (ct \<noteq> None \<and> startswith (strip raw) ''[''
            \<and> (\<exists>ob. parse_entry isalpha upper_of strptime to_float (strip raw) = Inr (Some ob) \<and> d' = d @ [ob])))"
  using assms
  by (auto simp: step_def is_header_def Let_def split: if_splits sum.splits option.splits)

lemma load_from_provenance:
  "load_from isalpha upper_of strptime to_float (ct, d) ls = Inr (ct', d') \<Longrightarrow> ob \<in> set d' \<Longrightarrow>
   ob \<in> set d \<or>
         (\<exists>j<length ls. \<not> is_header (ls ! j) \<and> startswith (strip (ls ! j)) ''[''
            \<and> parse_entry isalpha upper_of strptime to_float (strip (ls ! j)) = Inr (Some ob)
            \<and> (ct \<noteq> None \<or> (\<exists>i<j. is_header (ls ! i))))"
proof (induction ls arbitrary: ct d)
  case Nil
  then show ?case by simp
next
  case (Cons raw rest)
  from Cons.prems(1) obtain ct1 d1 where
    s: "step isalpha upper_of strptime to_float (ct, d) raw = Inr (ct1, d1)" and
    l: "load_from isalpha upper_of strptime to_float (ct1, d1) rest = Inr (ct', d')"
    by (auto split: sum.splits)
  let ?E = "\<lambda>ls j. \<not> is_header (ls ! j) \<and> startswith (strip (ls ! j)) ''[''
            \<and> parse_entry isalpha upper_of strptime to_float (strip (ls ! j)) = Inr (Some ob)"
  from Cons.IH [OF l Cons.prems(2)]
  consider (old) "ob \<in> set d1"
    | (new) j where "j < length rest" "?E rest j" "ct1 \<noteq> None \<or> (\<exists>i<j. is_header (rest ! i))"
    by blast
  then show ?case
  proof cases
    case old
    show ?thesis
    proof (cases "is_header raw")
      case True
      with s old step_header show ?thesis by blast
    next
      case False
      from step_entry [OF s False] old
      consider "ob \<in> set d"
        | "ct \<noteq> None" "startswith (strip raw) ''[''" "parse_entry isalpha upper_of strptime to_float (strip raw) = Inr (Some ob)"
        by auto
      then show ?thesis
      proof cases
        case 1
        then show ?thesis by simp
      next
        case 2
        with False have "?E (raw # rest) 0 \<and> ct \<noteq> None" by simp
        then show ?thesis by (intro disjI2 exI [of _ 0]) simp
      qed
    qed
  next
    case new
    have E: "?E (raw # rest) (Suc j)" using new(2) by simp
    have "ct \<noteq> None \<or> (\<exists>i<Suc j. is_header ((raw # rest) ! i))"
    proof (cases "is_header raw")
      case True
      then have "is_header ((raw # rest) ! 0)" by simp
      then show ?thesis by blast
    next
      case False
      from step_entry [OF s False] have "ct1 = ct" by simp
      with new(3) consider "ct \<noteq> None" | i where "i < j" "is_header (rest ! i)" by blast
      then show ?thesis
      proof cases
        case 1
        then show ?thesis by simp
      next
        case 2
        then have "Suc i < Suc j \<and> is_header ((raw # rest) ! Suc i)" by simp
        then show ?thesis by blast
      qed
    qed
    with E new(1) show ?thesis
      by (intro disjI2 exI [of _ "Suc j"]) simp
  qed
qed

lemma most_recent_before:
  "\<exists>i<j::nat. P i \<Longrightarrow> \<exists>i<j. P i \<and> (\<forall>k. i < k \<and> k < j \<longrightarrow> \<not> P k)"
proof (induction j)
  case 0
  then show ?case by simp
next
  case (Suc j)
  show ?case
  proof (cases "P j")
    case True
    then show ?thesis by (intro exI [of _ j]) auto
  next
    case False
    with Suc.prems have "\<exists>i<j. P i" by (metis less_Suc_eq)
    from Suc.IH [OF this] obtain i where "i < j" "P i" "\<forall>k. i < k \<and> k < j \<longrightarrow> \<not> P k" by blast
    with False show ?thesis
      by (intro exI [of _ i]) (auto simp: less_Suc_eq)
  qed
qed

lemma load_from_append:
  "load_from isalpha upper_of strptime to_float st (xs @ ys) =
     (case load_from isalpha upper_of strptime to_float st xs of
        Inl e \<Rightarrow> Inl e
      | Inr st' \<Rightarrow> load_from isalpha upper_of strptime to_float st' ys)"
  by (induction xs arbitrary: st) (auto split: sum.splits)

lemma step_skipped:
  "skipped strptime ct raw \<Longrightarrow> step isalpha upper_of strptime to_float (ct, d) raw = Inr (ct, d)"
  by (auto simp: skipped_def step_def parse_entry_def Let_def split: if_splits sum.splits)

lemma those_length: "those xs = Some ys \<Longrightarrow> length ys = length xs"
  by (induction xs arbitrary: ys) (auto split: option.splits)

lemma step_malformed_coordinates:
  assumes "malformed_coordinates strptime to_float ct raw"
  shows "step isalpha upper_of strptime to_float (ct, d) raw = Inl ValueError
       \<or> step isalpha upper_of strptime to_float (ct, d) raw = Inl IndexError"
proof -
  let ?line = "strip raw"
  from assms obtain ts_end u l t where
    h: "\<not> startswith ?line ''--- Snapshot''" "startswith ?line ''[''" "ct \<noteq> None"
       "index ?line CHR '']'' = Inr ts_end" "strptime (drop 1 (take ts_end ?line)) = Some t"
       "CHR '':'' \<in> set (drop (ts_end + 2) ?line)"
       "split (drop (ts_end + 2) ?line) '':'' = [u, l]"
       "those (map to_float (take 2 (split (strip l) '',''))) = None
          \<or> length (split (strip l) '','') < 2"
    by (auto simp: malformed_coordinates_def Let_def split: sum.splits list.splits)
  show ?thesis
  proof (cases "those (map to_float (take 2 (split (strip l) '','')))")
    case None
    with h have "parse_entry isalpha upper_of strptime to_float ?line = Inl ValueError"
      by (simp add: parse_entry_def Let_def)
    with h show ?thesis by (simp add: step_def Let_def)
  next
    case (Some coords)
    with h(8) have "length (split (strip l) '','') < 2" by simp
    moreover from Some have "length coords = length (take 2 (split (strip l) '',''))"
      by (auto dest: those_length)
    ultimately have "length coords < 2" by simp
    then have "(case coords of c0 # c1 # x \<Rightarrow> Inr (Some \<lparr>time = t, user = strip u, lon = c0, lat = c1, tag = tag_of isalpha upper_of (strip u)\<rparr>) | _ \<Rightarrow> Inl IndexError) = Inl IndexError"
      by (cases coords; cases "tl coords") auto
    with h Some have "parse_entry isalpha upper_of strptime to_float ?line = Inl IndexError"
      by (simp add: parse_entry_def Let_def)
    with h show ?thesis by (simp add: step_def Let_def)
  qed
qed

subsection \<open>A log of the specification's scenario, line by line\<close>

lemmas str_eval = strip_def isspace_def startswith_def split_def isdigit_def nat_of_digits_def Let_def

lemma ex_time_0: "strptime_fixed ''2024-01-01 12:00:00'' = Some (2024, 1, 1, 12, 0, 0)"
  by (simp add: strptime_fixed_def str_eval days_in_month_def)

lemma ex_time_5: "strptime_fixed ''2024-01-01 12:00:05'' = Some (2024, 1, 1, 12, 0, 5)"
  by (simp add: strptime_fixed_def str_eval days_in_month_def)

lemma ex_time_6: "strptime_fixed ''2024-01-01 12:00:06'' = Some (2024, 1, 1, 12, 0, 6)"
  by (simp add: strptime_fixed_def str_eval days_in_month_def)

lemma ex_float_lon: "float_decimal ''174.76'' = Some (17476 / 100)"
  by (simp add: float_decimal_def str_eval)

lemma ex_float_lat: "float_decimal ''-41.29'' = Some (- 4129 / 100)"
  by (simp add: float_decimal_def str_eval)

lemma ex_float_abc: "float_decimal ''abc'' = None"
  by (simp add: float_decimal_def str_eval)

lemma ex_tag: "tag_of ascii_isalpha ascii_upper_of ''Alpha1'' = ''ALP''"
  by code_simp

lemma ex_header: "is_header ''--- Snapshot at 2024-01-01 12:00:00 UTC ---''"
  by (simp add: is_header_def str_eval)

lemma ex_step_header:
  "step ascii_isalpha ascii_upper_of strptime_fixed float_decimal (ct, d) ''--- Snapshot at 2024-01-01 12:00:00 UTC ---''
     = Inr (Some (2024, 1, 1, 12, 0, 0), d)"
  by (simp add: step_def str_eval ex_time_0)

lemma ex_parse_entry:
  "parse_entry ascii_isalpha ascii_upper_of strptime_fixed float_decimal ''[2024-01-01 12:00:05] Alpha1: 174.76,-41.29''
     = Inr (Some \<lparr>time = (2024, 1, 1, 12, 0, 5), user = ''Alpha1'', lon = 17476 / 100,
                   lat = - 4129 / 100, tag = ''ALP''\<rparr>)"
  by (simp add: parse_entry_def str_eval ex_time_5 ex_float_lon ex_float_lat ex_tag)

lemma ex_entry_strip:
  "strip ''[2024-01-01 12:00:05] Alpha1: 174.76,-41.29'' = ''[2024-01-01 12:00:05] Alpha1: 174.76,-41.29''"
  by (simp add: str_eval)

lemma ex_step_entry:
  "step ascii_isalpha ascii_upper_of strptime_fixed float_decimal (Some t, d) ''[2024-01-01 12:00:05] Alpha1: 174.76,-41.29''
     = Inr (Some t, d @ [\<lparr>time = (2024, 1, 1, 12, 0, 5), user = ''Alpha1'', lon = 17476 / 100,
                   lat = - 4129 / 100, tag = ''ALP''\<rparr>])"
  by (simp add: step_def ex_entry_strip ex_parse_entry startswith_def Let_def)

lemma ex_entry_not_header: "\<not> is_header ''[2024-01-01 12:00:05] Alpha1: 174.76,-41.29''"
  unfolding is_header_def ex_entry_strip by (simp add: startswith_def)

lemma ex_bad_strip:
  "strip ''[2024-01-01 12:00:06] Bravo2: abc,-41.30'' = ''[2024-01-01 12:00:06] Bravo2: abc,-41.30''"
  by (simp add: str_eval)

lemma ex_parse_bad:
  "parse_entry ascii_isalpha ascii_upper_of strptime_fixed float_decimal ''[2024-01-01 12:00:06] Bravo2: abc,-41.30''
     = Inl ValueError"
  by (simp add: parse_entry_def str_eval ex_time_6 ex_float_abc)

lemma ex_step_bad:
  "step ascii_isalpha ascii_upper_of strptime_fixed float_decimal (Some t, d) ''[2024-01-01 12:00:06] Bravo2: abc,-41.30''
     = Inl ValueError"
  by (simp add: step_def ex_bad_strip ex_parse_bad startswith_def Let_def)

lemma ex_malformed:
  "malformed_coordinates strptime_fixed float_decimal (Some t) ''[2024-01-01 12:00:06] Bravo2: abc,-41.30''"
  by (simp add: malformed_coordinates_def str_eval ex_time_6 ex_float_abc)

lemma ex_skipped: "skipped strptime_fixed (Some t) ''# note''"
  by (simp add: skipped_def str_eval)

text \<open>
  C3, as the specification states it, fails: an entry line with a malformed coordinate
  field is not skipped. After a header, the line for \<open>Bravo2\<close> with the coordinate
  \<open>abc\<close> ends the load with ValueError; without that line the same log loads.
\<close>

theorem load_aborts_on_malformed_coordinates:
  "load ascii_isalpha ascii_upper_of strptime_fixed float_decimal
     [''--- Snapshot at 2024-01-01 12:00:00 UTC ---'',
      ''[2024-01-01 12:00:06] Bravo2: abc,-41.30'',
      ''[2024-01-01 12:00:05] Alpha1: 174.76,-41.29''] = Inl ValueError
   \<and> load ascii_isalpha ascii_upper_of strptime_fixed float_decimal
     [''--- Snapshot at 2024-01-01 12:00:00 UTC ---'',
      ''[2024-01-01 12:00:05] Alpha1: 174.76,-41.29'']
     = Inr [\<lparr>time = (2024, 1, 1, 12, 0, 5), user = ''Alpha1'', lon = 17476 / 100,
             lat = - 4129 / 100, tag = ''ALP''\<rparr>]"
  by (simp add: load_def ex_step_header ex_step_bad ex_step_entry)

text \<open>
  C3, amended. Let the lines \<open>pre\<close> have been read without error, leaving the header
  context \<open>ct\<close>. A next line of the class \<open>skipped\<close> changes nothing: the load goes
  on with the lines after it as if the line were not there. A next line of the class
  \<open>malformed_coordinates\<close> is not skipped: the load fails, with ValueError or with
  IndexError, whatever follows.
\<close>

theorem bad_lines_skipped_or_fatal:
  assumes "load_from isalpha upper_of strptime to_float st pre = Inr (ct, d)"
  shows "(skipped strptime ct raw \<longrightarrow>
            load_from isalpha upper_of strptime to_float st (pre @ raw # post)
              = load_from isalpha upper_of strptime to_float st (pre @ post))
       \<and> (malformed_coordinates strptime to_float ct raw \<longrightarrow>
            load_from isalpha upper_of strptime to_float st (pre @ raw # post) = Inl ValueError
            \<or> load_from isalpha upper_of strptime to_float st (pre @ raw # post) = Inl IndexError)"
proof -
  have a: "skipped strptime ct raw \<longrightarrow>
            load_from isalpha upper_of strptime to_float st (pre @ raw # post)
              = load_from isalpha upper_of strptime to_float st (pre @ post)"
    using assms by (simp add: load_from_append step_skipped)
  have b: "malformed_coordinates strptime to_float ct raw \<longrightarrow>
            load_from isalpha upper_of strptime to_float st (pre @ raw # post) = Inl ValueError
            \<or> load_from isalpha upper_of strptime to_float st (pre @ raw # post) = Inl IndexError"
  proof
    assume "malformed_coordinates strptime to_float ct raw"
    from step_malformed_coordinates [OF this, where d = d and isalpha = isalpha and upper_of = upper_of]
    show "load_from isalpha upper_of strptime to_float st (pre @ raw # post) = Inl ValueError
            \<or> load_from isalpha upper_of strptime to_float st (pre @ raw # post) = Inl IndexError"
      using assms by (auto simp: load_from_append)
  qed
  from a b show ?thesis by blast
qed

theorem bad_lines_witness:
  "load_from ascii_isalpha ascii_upper_of strptime_fixed float_decimal (None, [])
      [''--- Snapshot at 2024-01-01 12:00:00 UTC ---''] = Inr (Some (2024, 1, 1, 12, 0, 0), [])
   \<and> skipped strptime_fixed (Some (2024, 1, 1, 12, 0, 0)) ''# note''
   \<and> load_from ascii_isalpha ascii_upper_of strptime_fixed float_decimal (None, [])
      [''--- Snapshot at 2024-01-01 12:00:00 UTC ---'', ''# note'',
       ''[2024-01-01 12:00:05] Alpha1: 174.76,-41.29'']
     = Inr (Some (2024, 1, 1, 12, 0, 0),
            [\<lparr>time = (2024, 1, 1, 12, 0, 5), user = ''Alpha1'', lon = 17476 / 100,
              lat = - 4129 / 100, tag = ''ALP''\<rparr>])
   \<and> malformed_coordinates strptime_fixed float_decimal (Some (2024, 1, 1, 12, 0, 0))
        ''[2024-01-01 12:00:06] Bravo2: abc,-41.30''
   \<and> load_from ascii_isalpha ascii_upper_of strptime_fixed float_decimal (None, [])
      [''--- Snapshot at 2024-01-01 12:00:00 UTC ---'',
       ''[2024-01-01 12:00:06] Bravo2: abc,-41.30'',
       ''[2024-01-01 12:00:05] Alpha1: 174.76,-41.29''] = Inl ValueError"
proof -
  have pre: "load_from ascii_isalpha ascii_upper_of strptime_fixed float_decimal (None, [])
      [''--- Snapshot at 2024-01-01 12:00:00 UTC ---''] = Inr (Some (2024, 1, 1, 12, 0, 0), [])"
    by (simp add: ex_step_header)
  from bad_lines_skipped_or_fatal [OF pre, of "''# note''"
      "[''[2024-01-01 12:00:05] Alpha1: 174.76,-41.29'']"]
    bad_lines_skipped_or_fatal [OF pre, of "''[2024-01-01 12:00:06] Bravo2: abc,-41.30''"
      "[''[2024-01-01 12:00:05] Alpha1: 174.76,-41.29'']"]
  show ?thesis
    by (simp add: ex_skipped ex_malformed ex_step_header ex_step_entry ex_step_bad)
qed

text \<open>
  C6. Lines before the first header add nothing: dropping them leaves the result of the
  load as it is, entry lines among them included. And every row of a loaded log is what
  \<open>parse_entry\<close> makes of a bracketed line \<open>j\<close> that has a header line \<open>i\<close> before it,
  \<open>i\<close> being the most recent header before \<open>j\<close>.
\<close>

theorem entries_need_a_header:
  "((\<forall>raw \<in> set pre. \<not> is_header raw) \<longrightarrow>
      load isalpha upper_of strptime to_float (pre @ rest) = load isalpha upper_of strptime to_float rest)
   \<and> (load isalpha upper_of strptime to_float lines = Inr data \<and> ob \<in> set data \<longrightarrow>
        (\<exists>i j. i < j \<and> j < length lines \<and> is_header (lines ! i)
           \<and> (\<forall>k. i < k \<and> k < j \<longrightarrow> \<not> is_header (lines ! k))
           \<and> startswith (strip (lines ! j)) ''[''
           \<and> parse_entry isalpha upper_of strptime to_float (strip (lines ! j)) = Inr (Some ob)))"
proof -
  have a: "(\<forall>raw \<in> set pre. \<not> is_header raw) \<longrightarrow>
      load isalpha upper_of strptime to_float (pre @ rest) = load isalpha upper_of strptime to_float rest"
    by (simp add: load_def load_from_before_header)
  have b: "load isalpha upper_of strptime to_float lines = Inr data \<and> ob \<in> set data \<longrightarrow>
        (\<exists>i j. i < j \<and> j < length lines \<and> is_header (lines ! i)
           \<and> (\<forall>k. i < k \<and> k < j \<longrightarrow> \<not> is_header (lines ! k))
           \<and> startswith (strip (lines ! j)) ''[''
           \<and> parse_entry isalpha upper_of strptime to_float (strip (lines ! j)) = Inr (Some ob))"
  proof
    assume h: "load isalpha upper_of strptime to_float lines = Inr data \<and> ob \<in> set data"
    then obtain ct' where "load_from isalpha upper_of strptime to_float (None, []) lines = Inr (ct', data)"
      by (auto simp: load_def split: sum.splits)
    from load_from_provenance [OF this conjunct2 [OF h]]
    obtain j where j: "j < length lines" "startswith (strip (lines ! j)) ''[''"
      "parse_entry isalpha upper_of strptime to_float (strip (lines ! j)) = Inr (Some ob)"
      "\<exists>i<j. is_header (lines ! i)" by auto
    from most_recent_before [OF j(4)] obtain i where
      "i < j" "is_header (lines ! i)" "\<forall>k. i < k \<and> k < j \<longrightarrow> \<not> is_header (lines ! k)" by blast
    with j show "\<exists>i j. i < j \<and> j < length lines \<and> is_header (lines ! i)
           \<and> (\<forall>k. i < k \<and> k < j \<longrightarrow> \<not> is_header (lines ! k))
           \<and> startswith (strip (lines ! j)) ''[''
           \<and> parse_entry isalpha upper_of strptime to_float (strip (lines ! j)) = Inr (Some ob)" by blast
  qed
  from a b show ?thesis by blast
qed

theorem entries_need_a_header_witness:
  "\<not> is_header ''[2024-01-01 12:00:05] Alpha1: 174.76,-41.29''
   \<and> load ascii_isalpha ascii_upper_of strptime_fixed float_decimal
       [''[2024-01-01 12:00:05] Alpha1: 174.76,-41.29''] = Inr []
   \<and> load ascii_isalpha ascii_upper_of strptime_fixed float_decimal
       [''[2024-01-01 12:00:05] Alpha1: 174.76,-41.29'',
        ''--- Snapshot at 2024-01-01 12:00:00 UTC ---'',
        ''[2024-01-01 12:00:05] Alpha1: 174.76,-41.29'']
      = Inr [\<lparr>time = (2024, 1, 1, 12, 0, 5), user = ''Alpha1'', lon = 17476 / 100,
              lat = - 4129 / 100, tag = ''ALP''\<rparr>]
   \<and> is_header ''--- Snapshot at 2024-01-01 12:00:00 UTC ---''"
proof -
  let ?e = "''[2024-01-01 12:00:05] Alpha1: 174.76,-41.29''"
  let ?h = "''--- Snapshot at 2024-01-01 12:00:00 UTC ---''"
  let ?ob = "\<lparr>time = (2024, 1, 1, 12, 0, 5), user = ''Alpha1'', lon = 17476 / 100 :: rat,
              lat = - 4129 / 100, tag = ''ALP''\<rparr>"
  have l: "load ascii_isalpha ascii_upper_of strptime_fixed float_decimal [?h, ?e] = Inr [?ob]"
    by (simp add: load_def ex_step_header ex_step_entry)
  have n: "load ascii_isalpha ascii_upper_of strptime_fixed float_decimal [?e] = Inr []"
    by (simp add: load_def step_before_header ex_entry_not_header)
  from entries_need_a_header [of "[?e]" ascii_isalpha ascii_upper_of strptime_fixed float_decimal "[?h, ?e]" "[?h, ?e]" "[?ob]" ?ob]
    entries_need_a_header [of "[?e]" ascii_isalpha ascii_upper_of strptime_fixed float_decimal "[]" "[?h, ?e]" "[?ob]" ?ob]
    l n ex_entry_not_header ex_header
  show ?thesis by simp
qed

section \<open>Properties of the figure\<close>

lemma frame_at_append:
  "a < length h \<Longrightarrow> frame_at (h @ new) a = frame_at h a"
  by (simp add: frame_at_def nth_append)

lemma colors_at_append:
  "a < length h \<Longrightarrow> colors_at (h @ new) a = colors_at h a"
  by (simp add: colors_at_def nth_append)

lemma frame_at_new: "frame_at (h @ [Frame rows]) (length h) = Inr rows"
  by (simp add: frame_at_def)

lemma frame_at_bound: "frame_at h a = Inr rows \<Longrightarrow> a < length h"
  by (simp add: frame_at_def split: if_splits)

lemma create_figure_unfold:
  "create_figure sort_values mean fallback t c z nm h =
     (case frame_at h (df_at nm) of
        Inl e \<Rightarrow> (Inl e, h)
      | Inr rows \<Rightarrow>
          (figure_of mean fallback
             (colors_at
                (h @ [Frame (filter (\<lambda>r. time r \<le> t) rows),
                      Frame (sort_values (filter (\<lambda>r. time r \<le> t) rows)),
                      Frame (current_df sort_values rows t)])
                (tag_colors_at nm))
             (current_df sort_values rows t) c z,
           h @ [Frame (filter (\<lambda>r. time r \<le> t) rows),
                Frame (sort_values (filter (\<lambda>r. time r \<le> t) rows)),
                Frame (current_df sort_values rows t)]))"
proof (cases "frame_at h (df_at nm)")
  case (Inl e)
  then show ?thesis by (simp add: create_figure_def getitem_time_le_def)
next
  case (Inr rows)
  let ?f1 = "filter (\<lambda>r. time r \<le> t) rows"
  let ?h1 = "h @ [Frame ?f1]"
  let ?h2 = "?h1 @ [Frame (sort_values ?f1)]"
  let ?h3 = "?h2 @ [Frame (groupby_user_tail (sort_values ?f1))]"
  have 1: "getitem_time_le (df_at nm) t h = Inr (length h, ?h1)"
    using Inr by (simp add: getitem_time_le_def)
  have 2: "sort_values_frame sort_values False (length h) ?h1 = Inr (Some (length ?h1), ?h2)"
    by (simp add: sort_values_frame_def frame_at_new)
  have 3: "groupby_user_tail_frame (length ?h1) ?h2 = Inr (length ?h2, ?h3)"
    using frame_at_new [of ?h1 "sort_values ?f1"] by (simp add: groupby_user_tail_frame_def)
  have 4: "frame_at ?h3 (length ?h2) = Inr (groupby_user_tail (sort_values ?f1))"
    by (rule frame_at_new)
  have "create_figure sort_values mean fallback t c z nm h =
          (figure_of mean fallback (colors_at ?h3 (tag_colors_at nm))
             (groupby_user_tail (sort_values ?f1)) c z, ?h3)"
    unfolding create_figure_def 1 by (simp only: 2 3 4 sum.case prod.case option.case)
  with Inr show ?thesis by (simp add: current_df_def)
qed

text \<open>
  C10. Let the three global names be bound to objects of the heap. A call of
  \<open>create_figure\<close>, for every cursor time, centre and zoom, leaves every object that was
  on the heap before the call as it was, the frame \<open>df\<close>, the list \<open>unique_times\<close> and
  the dictionary \<open>tag_colors\<close> among them: all it adds are new frames. A second call with
  the same arguments, on the heap the first call left, returns what the first returned.
\<close>

theorem create_figure_leaves_objects:
  assumes bound: "df_at nm < length h" "unique_times_at nm < length h" "tag_colors_at nm < length h"
    and run: "create_figure sort_values mean fallback t c z nm h = (res, h')"
  shows "(\<forall>a<length h. h' ! a = h ! a)
     \<and> h' ! df_at nm = h ! df_at nm
     \<and> h' ! unique_times_at nm = h ! unique_times_at nm
     \<and> h' ! tag_colors_at nm = h ! tag_colors_at nm
     \<and> fst (create_figure sort_values mean fallback t c z nm h') = res"
proof (cases "frame_at h (df_at nm)")
  case (Inl e)
  with run have "h' = h" "res = Inl e" by (simp_all add: create_figure_unfold)
  with Inl show ?thesis by (simp add: create_figure_unfold)
next
  case (Inr rows)
  let ?new = "[Frame (filter (\<lambda>r. time r \<le> t) rows),
               Frame (sort_values (filter (\<lambda>r. time r \<le> t) rows)),
               Frame (current_df sort_values rows t)]"
  from run Inr have "(figure_of mean fallback (colors_at (h @ ?new) (tag_colors_at nm))
                      (current_df sort_values rows t) c z, h @ ?new) = (res, h')"
    by (simp only: create_figure_unfold sum.case)
  then have h': "h' = h @ ?new"
    and res: "res = figure_of mean fallback (colors_at (h @ ?new) (tag_colors_at nm))
                      (current_df sort_values rows t) c z"
    by auto
  have old: "\<forall>a<length h. h' ! a = h ! a" by (simp add: h' nth_append)
  have f: "frame_at h' (df_at nm) = Inr rows"
    using bound(1) Inr by (simp only: h' frame_at_append)
  have c1: "colors_at (h @ ?new) (tag_colors_at nm) = colors_at h (tag_colors_at nm)"
    using bound(3) by (rule colors_at_append)
  have "tag_colors_at nm < length h'" using bound(3) by (simp add: h')
  then have c2: "colors_at (h' @ ?new) (tag_colors_at nm) = colors_at h' (tag_colors_at nm)"
    by (rule colors_at_append)
  have c3: "colors_at h' (tag_colors_at nm) = colors_at h (tag_colors_at nm)"
    using bound(3) by (simp only: h' colors_at_append)
  have "fst (create_figure sort_values mean fallback t c z nm h') = res"
    by (simp add: create_figure_unfold f res c1 c2 c3)
  with old bound show ?thesis by simp
qed

text \<open>
  The sort of line 40, which passes \<open>inplace=True\<close>, does change the object it is
  called on.
\<close>

lemma inplace_sort_writes:
  "sort_values_frame stable_sort True 0 [Frame example_data] = Inr (None, [Frame (stable_sort example_data)])
   \<and> stable_sort example_data \<noteq> example_data"
  by (simp add: sort_values_frame_def frame_at_def example_df) (simp add: example_data_def)

lemma example_color: "tag_color example_hash [c] = ''#001235''"
  by (simp add: tag_color_def startswith_def example_hash_def format_06x_def
        hex_digits.simps hex_digit_def numeral_2_eq_2)

lemma example_startup: "startup stable_sort example_hash example_data = Inr example_globals"
proof -
  have "example_data \<noteq> []" by (simp add: example_data_def)
  then show ?thesis
    unfolding startup_def Let_def example_df example_globals_def
    by (simp add: unique_def example_color)
qed

theorem create_figure_witness:
  "startup stable_sort example_hash example_data = Inr example_globals
   \<and> create_figure stable_sort (\<lambda>xs. sum_list xs div int (length xs)) (- 41, 174) 4 None (12::nat)
        module_names (heap_of example_globals)
     = (Inr \<lparr>traces =
               [\<lparr>trace_lon = [7], trace_lat = [7], marker_color = ''#001235'',
                  trace_text = [''b''], trace_name = ''B''\<rparr>],
              mapbox_center = (7, 7), mapbox_zoom = 12\<rparr>,
        heap_of example_globals
          @ [Frame [\<lparr>time = 3, user = ''b'', lon = 7, lat = 7, tag = ''B''\<rparr>],
             Frame [\<lparr>time = 3, user = ''b'', lon = 7, lat = 7, tag = ''B''\<rparr>],
             Frame [\<lparr>time = 3, user = ''b'', lon = 7, lat = 7, tag = ''B''\<rparr>]])
   \<and> fst (create_figure stable_sort (\<lambda>xs. sum_list xs div int (length xs)) (- 41, 174) 4 None (12::nat)
        module_names
        (heap_of example_globals
          @ [Frame [\<lparr>time = 3, user = ''b'', lon = 7, lat = 7, tag = ''B''\<rparr>],
             Frame [\<lparr>time = 3, user = ''b'', lon = 7, lat = 7, tag = ''B''\<rparr>],
             Frame [\<lparr>time = 3, user = ''b'', lon = 7, lat = 7, tag = ''B''\<rparr>]]))
     = Inr \<lparr>traces =
               [\<lparr>trace_lon = [7], trace_lat = [7], marker_color = ''#001235'',
                  trace_text = [''b''], trace_name = ''B''\<rparr>],
              mapbox_center = (7, 7), mapbox_zoom = 12\<rparr>"
proof -
  let ?mean = "\<lambda>xs. sum_list xs div int (length xs)"
  let ?b = "\<lparr>time = 3::nat, user = ''b'', lon = 7::int, lat = 7, tag = ''B''\<rparr>"
  have f: "frame_at (heap_of example_globals) (df_at module_names) = Inr (stable_sort example_data)"
    by (simp add: frame_at_def heap_of_def module_names_def example_globals_def)
  have s: "stable_sort [?b] = [?b]" by (simp add: stable_sort_def)
  have fl: "filter (\<lambda>r. time r \<le> 4) (stable_sort example_data) = [?b]"
    unfolding example_df by simp
  have run: "create_figure stable_sort ?mean (- 41, 174) 4 None (12::nat)
        module_names (heap_of example_globals)
     = (Inr \<lparr>traces =
               [\<lparr>trace_lon = [7], trace_lat = [7], marker_color = ''#001235'',
                  trace_text = [''b''], trace_name = ''B''\<rparr>],
              mapbox_center = (7, 7), mapbox_zoom = 12\<rparr>,
        heap_of example_globals @ [Frame [?b], Frame [?b], Frame [?b]])"
    unfolding create_figure_unfold f sum.case fl s example_current_df_4
    by (simp add: figure_of_def colors_at_def heap_of_def module_names_def example_globals_def
          unique_def)
  have b: "df_at module_names < length (heap_of example_globals)"
    "unique_times_at module_names < length (heap_of example_globals)"
    "tag_colors_at module_names < length (heap_of example_globals)"
    by (simp_all add: heap_of_def module_names_def)
  from create_figure_leaves_objects [OF b run] run example_startup
  show ?thesis by simp
qed

end
